theory Spec2Isabelle
  imports Complex_Main "HOL-Library.Sublist" "HOL-Library.Log_Nat"
begin

section \<open>Python strings and the regular expressions of the source\<close>

text \<open>
  A Python \<open>str\<close> is modelled as a \<open>string\<close> (a list of 8-bit characters), so the model
  covers ASCII labels. \<open>str.lower()\<close> maps \<open>A..Z\<close> to \<open>a..z\<close> and leaves every other
  character alone.
\<close>

definition lower_char :: "char \<Rightarrow> char" where
  "lower_char c =
     (case map_of (zip ''ABCDEFGHIJKLMNOPQRSTUVWXYZ'' ''abcdefghijklmnopqrstuvwxyz'') c of
        Some d \<Rightarrow> d
      | None \<Rightarrow> c)"

definition lower :: "string \<Rightarrow> string" where
  "lower s = map lower_char s"

text \<open>\<open>sub in s\<close>: the string \<open>sub\<close> occurs in \<open>s\<close> as a contiguous substring.\<close>

fun str_in :: "string \<Rightarrow> string \<Rightarrow> bool" where
  "str_in sub [] = (sub = [])"
| "str_in sub (c # cs) = (prefix sub (c # cs) \<or> str_in sub cs)"

text \<open>The class \<open>\d\<close> (on ASCII text) and \<open>int(...)\<close> of a string of digits.\<close>

definition is_digit :: "char \<Rightarrow> bool" where
  "is_digit c = (c \<in> set ''0123456789'')"

definition digit_val :: "char \<Rightarrow> nat" where
  "digit_val c =
     (case map_of (zip ''0123456789'' [0, 1, 2, 3, 4, 5, 6, 7, 8, 9]) c of
        Some d \<Rightarrow> d
      | None \<Rightarrow> 0)"

definition int_of_digits :: "string \<Rightarrow> nat" where
  "int_of_digits ds = foldl (\<lambda>a c. 10 * a + digit_val c) 0 ds"

text \<open>
  The pattern \<open>P H \d+\<close> anchored at the start of \<open>s\<close>: the digits it matches and the text
  after them. \<open>\d+\<close> is greedy, and in both patterns of the source what follows the digits
  cannot start with a digit, so the longest run of digits is the only candidate.
\<close>

definition match_P_H :: "string \<Rightarrow> (string \<times> string) option" where
  "match_P_H s =
     (if prefix ''P H '' s \<and> takeWhile is_digit (drop 4 s) \<noteq> []
      then Some (takeWhile is_digit (drop 4 s), dropWhile is_digit (drop 4 s))
      else None)"

text \<open>\<open>re.search(r'P H (\d+)', s)\<close>: group 1 of the leftmost match.\<close>

fun search_P_H :: "string \<Rightarrow> string option" where
  "search_P_H [] = None"
| "search_P_H (c # cs) =
     (case match_P_H (c # cs) of
        Some (ds, rest) \<Rightarrow> Some ds
      | None \<Rightarrow> search_P_H cs)"

text \<open>\<open>re.search(r'P H \d+ L[123]', s)\<close> as a truth value.\<close>

definition match_P_H_L :: "string \<Rightarrow> bool" where
  "match_P_H_L s =
     (case match_P_H s of
        None \<Rightarrow> False
      | Some (ds, rest) \<Rightarrow> prefix '' L1'' rest \<or> prefix '' L2'' rest \<or> prefix '' L3'' rest)"

fun search_P_H_L :: "string \<Rightarrow> bool" where
  "search_P_H_L [] = False"
| "search_P_H_L (c # cs) = (match_P_H_L (c # cs) \<or> search_P_H_L cs)"

text \<open>
  The pattern \<open>P H \d+\<close> occurs somewhere in \<open>s\<close>: the letters \<open>P H\<close>, a space and at
  least one digit.
\<close>

definition occurs_P_H :: "string \<Rightarrow> bool" where
  "occurs_P_H s = (\<exists>pre d rest. s = pre @ ''P H '' @ d # rest \<and> is_digit d)"

section \<open>The extraction helpers of \<open>ElectricalAnalyzerV2\<close>\<close>

definition extract_phase_from_column :: "string \<Rightarrow> string" where
  "extract_phase_from_column column_name =
     (let col_lower = lower column_name in
      if str_in ''l1'' col_lower then ''L1''
      else if str_in ''l2'' col_lower then ''L2''
      else if str_in ''l3'' col_lower then ''L3''
      else ''GENERAL'')"

definition extract_harmonic_order :: "string \<Rightarrow> int" where
  "extract_harmonic_order column_name =
     (case search_P_H column_name of
        Some ds \<Rightarrow> int (int_of_digits ds)
      | None \<Rightarrow> 1)"

section \<open>Tables\<close>

text \<open>
  A pandas \<open>DataFrame\<close>: the number of rows of its index and its columns in order, each
  with its label (in its \<open>str\<close> form). A column is a \<open>float64\<close> or \<open>int64\<close> series
  (\<open>Numeric\<close>, \<open>None\<close> for NaN), a \<open>bool\<close> series, a \<open>datetime64\<close> series (nanoseconds
  since the epoch, \<open>None\<close> for NaT), or an \<open>object\<close> series of mixed cells. Floating-point
  numbers are modelled as exact reals, and arithmetic on them is exact unless said otherwise.
\<close>

datatype cell = Num real | Str string | Ts int | NaN

datatype column =
    Numeric "real option list"
  | Boolean "bool list"
  | Datetime "int option list"
  | Object "cell list"

record dataframe =
  n_rows :: nat
  data :: "(string \<times> column) list"

definition columns :: "dataframe \<Rightarrow> string list" where
  "columns df = map fst (data df)"

text \<open>\<open>df[col]\<close> for a label of \<open>df.columns\<close>.\<close>

definition df_get :: "dataframe \<Rightarrow> string \<Rightarrow> column option" where
  "df_get df col = map_of (data df) col"

fun col_len :: "column \<Rightarrow> nat" where
  "col_len (Numeric xs) = length xs"
| "col_len (Boolean bs) = length bs"
| "col_len (Datetime ts) = length ts"
| "col_len (Object cs) = length cs"

text \<open>Every column of a DataFrame has one entry per row of the index.\<close>

definition wf_df :: "dataframe \<Rightarrow> bool" where
  "wf_df df = list_all (\<lambda>(l, c). col_len c = n_rows df) (data df)"

text \<open>\<open>pd.api.types.is_numeric_dtype\<close>: integer, floating and boolean dtypes.\<close>

fun is_numeric_dtype :: "column \<Rightarrow> bool" where
  "is_numeric_dtype (Numeric xs) = True"
| "is_numeric_dtype (Boolean bs) = True"
| "is_numeric_dtype (Datetime ts) = False"
| "is_numeric_dtype (Object cs) = False"

text \<open>The entries of a numeric column as numbers (\<open>True\<close> is 1, \<open>False\<close> is 0).\<close>

fun series_values :: "column \<Rightarrow> real option list" where
  "series_values (Numeric xs) = xs"
| "series_values (Boolean bs) = map (\<lambda>b. Some (if b then 1 else 0)) bs"
| "series_values (Datetime ts) = []"
| "series_values (Object cs) = []"

fun dropna :: "real option list \<Rightarrow> real list" where
  "dropna [] = []"
| "dropna (None # xs) = dropna xs"
| "dropna (Some x # xs) = x # dropna xs"

definition mean :: "real list \<Rightarrow> real" where
  "mean vs = sum_list vs / real (length vs)"

text \<open>
  \<open>round(x, n)\<close>: to \<open>n\<close> decimal places, a tie going to the even neighbour.
\<close>

definition round_half_even :: "real \<Rightarrow> int" where
  "round_half_even x =
     (let f = \<lfloor>x\<rfloor>; d = x - of_int f in
      if d < 1 / 2 then f
      else if d > 1 / 2 then f + 1
      else if even f then f else f + 1)"

definition py_round :: "real \<Rightarrow> nat \<Rightarrow> real" where
  "py_round x n = of_int (round_half_even (x * 10 ^ n)) / 10 ^ n"

section \<open>The rule families of \<open>ElectricalAnalyzerV2\<close>\<close>

datatype error = ZeroDivisionError | AttributeError

record voltage_record =
  fase :: string
  parametro :: string
  voltaje_promedio :: real
  limite_superior :: real
  limite_inferior :: real
  violaciones :: nat
  total_mediciones :: nat
  porcentaje_desviacion :: real
  excede_limite :: bool

record flicker_record =
  fase :: string
  parametro :: string
  valor_promedio :: real
  valor_maximo :: real
  limite :: real
  violaciones :: nat
  total_mediciones :: nat
  porcentaje_flicker :: real
  excede_limite :: bool

record thd_record =
  fase :: string
  parametro :: string
  thd_promedio :: real
  thd_maximo :: real
  limite :: real
  violaciones :: nat
  total_mediciones :: nat
  porcentaje_thd :: real
  excede_limite :: bool

record harmonic_record =
  orden_armonico :: int
  fase :: string
  parametro :: string
  valores_negativos :: nat
  total_mediciones :: nat
  porcentaje :: real
  valor_promedio :: real
  valor_minimo :: real
  total_valores_archivo :: nat



definition harmonic_total_measurements :: nat where
  "harmonic_total_measurements = 2150"


text \<open>
  The non-missing values of \<open>df[col]\<close> when the guard
  \<open>col in df.columns and is_numeric_dtype(df[col])\<close> holds, \<open>[]\<close> otherwise.
\<close>

definition numeric_values :: "dataframe \<Rightarrow> string \<Rightarrow> real list" where
  "numeric_values df col =
     (case df_get df col of
        None \<Rightarrow> []
      | Some c \<Rightarrow> if is_numeric_dtype c then dropna (series_values c) else [])"


text \<open>\<open>(violation_count / total_measurements) * 100\<close>, which raises on a zero total.\<close>

definition percentage_of :: "nat \<Rightarrow> nat \<Rightarrow> error + real" where
  "percentage_of violation_count total_measurements =
     (if total_measurements = 0 then Inl ZeroDivisionError
      else Inr (real violation_count / real total_measurements * 100))"


definition voltage_entry :: "dataframe \<Rightarrow> nat \<Rightarrow> string \<Rightarrow> error + voltage_record option" where
  "voltage_entry df total_measurements col =
     (case numeric_values df col of
        [] \<Rightarrow> Inr None
      | v # vs \<Rightarrow>
          (let vals = v # vs;
               nominal = mean vals;
               upper_limit = nominal * 1.08;
               lower_limit = nominal * 0.92;
               violation_count = length (filter (\<lambda>x. x > upper_limit \<or> x < lower_limit) vals)
           in case percentage_of violation_count total_measurements of
                Inl e \<Rightarrow> Inl e
              | Inr percentage \<Rightarrow>
                  Inr (Some \<lparr> voltage_record.fase = extract_phase_from_column col,
                              parametro = col,
                              voltaje_promedio = py_round nominal 3,
                              limite_superior = py_round upper_limit 3,
                              limite_inferior = py_round lower_limit 3,
                              violaciones = violation_count,
                              total_mediciones = total_measurements,
                              porcentaje_desviacion = py_round percentage 6,
                              excede_limite = (violation_count > 0) \<rparr>)))"









text \<open>
  \<open>_analyze_armonicos_complete\<close>: first the columns \<open>P H n Lk\<close> whose order is not 1, then
  one record per such column that is numeric and has a value. The denominator is the
  constant 2150, so the division cannot fail.
\<close>

definition harmonic_columns :: "dataframe \<Rightarrow> string list" where
  "harmonic_columns df =
     filter (\<lambda>col. search_P_H_L col \<and> extract_harmonic_order col \<noteq> 1) (columns df)"

definition harmonic_entry :: "dataframe \<Rightarrow> string \<Rightarrow> harmonic_record option" where
  "harmonic_entry df col =
     (case numeric_values df col of
        [] \<Rightarrow> None
      | v # vs \<Rightarrow>
          (let vals = v # vs;
               total_measurements = harmonic_total_measurements;
               negative_count = length (filter (\<lambda>x. x < 0) vals);
               percentage = real negative_count / real total_measurements * 100
           in Some \<lparr> orden_armonico = extract_harmonic_order col,
                     fase = extract_phase_from_column col,
                     parametro = col,
                     valores_negativos = negative_count,
                     total_mediciones = total_measurements,
                     porcentaje = py_round percentage 8,
                     valor_promedio = py_round (mean vals) 6,
                     valor_minimo = py_round (fold min vs v) 6,
                     total_valores_archivo = length vals \<rparr>))"

definition analyze_armonicos_complete :: "dataframe \<Rightarrow> harmonic_record list" where
  "analyze_armonicos_complete df = List.map_filter (harmonic_entry df) (harmonic_columns df)"

section \<open>The table cleaning of \<open>DataProcessor\<close>\<close>

text \<open>
  The classes \<open>\s\<close> and \<open>\w\<close> on ASCII text; \<open>str.strip()\<close> removes the same
  whitespace from both ends.
\<close>

definition is_space :: "char \<Rightarrow> bool" where
  "is_space c =
     (c \<in> set [CHR 0x09, CHR 0x0A, CHR 0x0B, CHR 0x0C, CHR 0x0D,
                CHR 0x1C, CHR 0x1D, CHR 0x1E, CHR 0x1F, CHR 0x20])"

definition is_word :: "char \<Rightarrow> bool" where
  "is_word c =
     (c \<in> set (''abcdefghijklmnopqrstuvwxyz'' @ ''ABCDEFGHIJKLMNOPQRSTUVWXYZ'' @
               ''0123456789'' @ ''_''))"

definition strip :: "string \<Rightarrow> string" where
  "strip s = rev (dropWhile is_space (rev (dropWhile is_space s)))"

text \<open>
  \<open>re.sub(r'\s+', '_', s)\<close>: every maximal run of whitespace becomes one underscore. The
  flag says that the character before was whitespace.
\<close>

fun collapse_spaces :: "bool \<Rightarrow> string \<Rightarrow> string" where
  "collapse_spaces in_run [] = []"
| "collapse_spaces in_run (c # cs) =
     (if is_space c
      then (if in_run then collapse_spaces True cs else CHR ''_'' # collapse_spaces True cs)
      else c # collapse_spaces False cs)"

text \<open>The three rewrites of a label in \<open>_clean_column_names\<close>.\<close>

definition clean_label :: "string \<Rightarrow> string" where
  "clean_label col =
     lower (collapse_spaces False (strip (filter (\<lambda>c. is_word c \<or> is_space c) col)))"

text \<open>
  \<open>_clean_column_names\<close>: the labels are rewritten, then the columns whose label starts
  with \<open>unnamed\<close> (in any case) are dropped. The selection is by position.
\<close>

definition clean_column_names :: "dataframe \<Rightarrow> dataframe" where
  "clean_column_names df =
     df\<lparr>data := filter (\<lambda>(l, c). \<not> prefix ''unnamed'' (lower l))
                    (map (\<lambda>(l, c). (clean_label l, c)) (data df))\<rparr>"

text \<open>
  The entries of a column as cells, whatever its dtype. A cell is missing (\<open>isna\<close>) when it
  is NaN or NaT; its \<open>astype(str)\<close> form is blank only for a string of whitespace (the
  text of a number, of a timestamp and of NaN is not blank).
\<close>

fun cells_of :: "column \<Rightarrow> cell list" where
  "cells_of (Numeric xs) = map (\<lambda>x. case x of None \<Rightarrow> NaN | Some v \<Rightarrow> Num v) xs"
| "cells_of (Boolean bs) = map (\<lambda>b. Num (if b then 1 else 0)) bs"
| "cells_of (Datetime ts) = map (\<lambda>t. case t of None \<Rightarrow> NaN | Some v \<Rightarrow> Ts v) ts"
| "cells_of (Object cs) = cs"

definition cell_at :: "column \<Rightarrow> nat \<Rightarrow> cell" where
  "cell_at c i = (if i < length (cells_of c) then cells_of c ! i else NaN)"

definition is_na :: "cell \<Rightarrow> bool" where
  "is_na x = (x = NaN)"

definition is_blank :: "cell \<Rightarrow> bool" where
  "is_blank x = (case x of Str s \<Rightarrow> strip s = [] | _ \<Rightarrow> False)"

text \<open>
  The rows of a table at the given positions, in that order; Boolean indexing keeps the
  positions where the condition holds.
\<close>

fun col_take :: "nat list \<Rightarrow> column \<Rightarrow> column" where
  "col_take order (Numeric xs) = Numeric (map ((!) xs) order)"
| "col_take order (Boolean bs) = Boolean (map ((!) bs) order)"
| "col_take order (Datetime ts) = Datetime (map ((!) ts) order)"
| "col_take order (Object cs) = Object (map ((!) cs) order)"

definition take_rows :: "nat list \<Rightarrow> dataframe \<Rightarrow> dataframe" where
  "take_rows order df =
     \<lparr>n_rows = length order, data = map (\<lambda>(l, c). (l, col_take order c)) (data df)\<rparr>"

definition keep_rows :: "(nat \<Rightarrow> bool) \<Rightarrow> dataframe \<Rightarrow> dataframe" where
  "keep_rows keep df = take_rows (filter keep [0..<n_rows df]) df"

definition row_all :: "(cell \<Rightarrow> bool) \<Rightarrow> dataframe \<Rightarrow> nat \<Rightarrow> bool" where
  "row_all P df i = list_all (\<lambda>(l, c). P (cell_at c i)) (data df)"

definition row_any :: "(cell \<Rightarrow> bool) \<Rightarrow> dataframe \<Rightarrow> nat \<Rightarrow> bool" where
  "row_any P df i = list_ex (\<lambda>(l, c). P (cell_at c i)) (data df)"

text \<open>
  \<open>_remove_empty_rows_columns\<close>, its four statements in order: the columns that are all
  missing, the columns that are all blank, then on what is left the rows that are all
  missing and the rows that are all blank.
\<close>

definition drop_columns_where :: "(cell \<Rightarrow> bool) \<Rightarrow> dataframe \<Rightarrow> dataframe" where
  "drop_columns_where P df =
     df\<lparr>data := filter (\<lambda>(l, c). \<not> list_all P (cells_of c)) (data df)\<rparr>"

definition drop_rows_where :: "(cell \<Rightarrow> bool) \<Rightarrow> dataframe \<Rightarrow> dataframe" where
  "drop_rows_where P df = keep_rows (\<lambda>i. \<not> row_all P df i) df"

definition remove_empty_rows_columns :: "dataframe \<Rightarrow> dataframe" where
  "remove_empty_rows_columns df =
     drop_rows_where is_blank
       (drop_rows_where is_na
          (drop_columns_where is_blank (drop_columns_where is_na df)))"

text \<open>\<open>_is_numeric_column\<close>, with the patterns of \<open>__init__\<close>.\<close>

definition numeric_columns_patterns :: "string \<Rightarrow> string list" where
  "numeric_columns_patterns file_type =
     (if file_type = ''tendencia''
        then [''voltage'', ''current'', ''power'', ''frequency'', ''thd'']
      else if file_type = ''armonicos_potencia''
        then [''harmonic'', ''magnitude'', ''phase'', ''distortion'']
      else if file_type = ''armonicos_voltaje''
        then [''voltage'', ''harmonic'', ''amplitude'', ''phase'']
      else [])"

definition numeric_indicators :: "string list" where
  "numeric_indicators =
     [''value'', ''val'', ''measurement'', ''reading'', ''level'', ''amplitude'',
      ''magnitude'', ''rms'', ''avg'', ''min'', ''max'', ''std'', ''mean'',
      ''percent'', ''ratio'', ''factor'', ''time'', ''date'', ''timestamp'']"

definition is_numeric_column :: "string \<Rightarrow> string \<Rightarrow> bool" where
  "is_numeric_column column_name file_type =
     (let column_lower = lower column_name in
      list_ex (\<lambda>pattern. str_in pattern column_lower) (numeric_columns_patterns file_type) \<or>
      list_ex (\<lambda>indicator. str_in indicator column_lower) numeric_indicators)"

text \<open>
  The two functions of pandas that read text: \<open>to_numeric\<close> on one string (\<open>None\<close> when
  it is no number) and \<open>to_datetime\<close> on one cell (\<open>None\<close> for NaT). They are parameters
  of the model.
\<close>

record pandas =
  to_numeric :: "string \<Rightarrow> real option"
  to_datetime :: "cell \<Rightarrow> int option"

text \<open>
  \<open>_convert_to_numeric\<close> on one cell: the text of the cell, without the characters
  outside \<open>[\d.\-+eE]\<close>, empty text as NaN, then \<open>to_numeric\<close>. The text of a number
  keeps all its characters and reads back as the number; \<open>nan\<close> and \<open>NaT\<close> keep none; the
  text of a timestamp keeps the digits of date and time with two \<open>-\<close> between them, which
  is no number.
\<close>

definition numeric_char :: "char \<Rightarrow> bool" where
  "numeric_char c = (c \<in> set ''0123456789.-+eE'')"

definition convert_cell :: "pandas \<Rightarrow> cell \<Rightarrow> real option" where
  "convert_cell pd x =
     (case x of
        Num v \<Rightarrow> Some v
      | NaN \<Rightarrow> None
      | Ts t \<Rightarrow> None
      | Str s \<Rightarrow>
          (let kept = filter numeric_char s in
           if kept = [] then None else to_numeric pd kept))"

text \<open>On a \<open>bool\<close> series the texts are \<open>True\<close> and \<open>False\<close>, of which \<open>e\<close> is kept.\<close>

fun convert_to_numeric :: "pandas \<Rightarrow> column \<Rightarrow> column" where
  "convert_to_numeric pd (Boolean bs) = Numeric (map (\<lambda>b. to_numeric pd ''e'') bs)"
| "convert_to_numeric pd c = Numeric (map (convert_cell pd) (cells_of c))"

text \<open>
  \<open>_clean_numeric_columns\<close>. For a label that two columns share, \<open>df[column]\<close> is a
  DataFrame, which has no \<open>.str\<close>: the conversion raises \<open>AttributeError\<close>.
\<close>

definition clean_numeric_columns :: "pandas \<Rightarrow> dataframe \<Rightarrow> string \<Rightarrow> error + dataframe" where
  "clean_numeric_columns pd df file_type =
     (if list_ex (\<lambda>column. is_numeric_column column file_type \<and>
                     count_list (columns df) column \<noteq> 1) (columns df)
      then Inl AttributeError
      else Inr (df\<lparr>data := map (\<lambda>(l, c). if is_numeric_column l file_type
                                         then (l, convert_to_numeric pd c) else (l, c))
                              (data df)\<rparr>))"


text \<open>
  \<open>_handle_missing_values\<close>. Linear interpolation (pandas' default direction) works on
  the \<open>float64\<close> and \<open>int64\<close> columns: a run of NaN between two values is filled on the
  straight line between them, a run after the last value repeats that value, a run before
  the first value stays.
\<close>

fun next_valid :: "real option list \<Rightarrow> (nat \<times> real) option" where
  "next_valid [] = None"
| "next_valid (Some w # xs) = Some (0, w)"
| "next_valid (None # xs) = map_option (\<lambda>(k, w). (Suc k, w)) (next_valid xs)"

fun interpolate_from :: "real \<Rightarrow> real option list \<Rightarrow> real option list" where
  "interpolate_from v [] = []"
| "interpolate_from v (Some w # xs) = Some w # interpolate_from w xs"
| "interpolate_from v (None # xs) =
     (case next_valid xs of
        None \<Rightarrow> Some v # interpolate_from v xs
      | Some (k, w) \<Rightarrow>
          (let x = v + (w - v) / real (k + 2) in Some x # interpolate_from x xs))"

fun interpolate :: "real option list \<Rightarrow> real option list" where
  "interpolate [] = []"
| "interpolate (None # xs) = None # interpolate xs"
| "interpolate (Some v # xs) = Some v # interpolate_from v xs"

text \<open>\<open>fillna(method='ffill')\<close> on one column: a missing entry takes the last one before it.\<close>

fun ffill :: "('a \<Rightarrow> bool) \<Rightarrow> 'a option \<Rightarrow> 'a list \<Rightarrow> 'a list" where
  "ffill na prev [] = []"
| "ffill na prev (x # xs) =
     (if na x then (case prev of None \<Rightarrow> x | Some v \<Rightarrow> v) # ffill na prev xs
      else x # ffill na (Some x) xs)"

definition bfill :: "('a \<Rightarrow> bool) \<Rightarrow> 'a list \<Rightarrow> 'a list" where
  "bfill na xs = rev (ffill na None (rev xs))"

fun col_ffill :: "column \<Rightarrow> column" where
  "col_ffill (Numeric xs) = Numeric (ffill (\<lambda>x. x = None) None xs)"
| "col_ffill (Boolean bs) = Boolean bs"
| "col_ffill (Datetime ts) = Datetime (ffill (\<lambda>x. x = None) None ts)"
| "col_ffill (Object cs) = Object (ffill is_na None cs)"

fun col_bfill :: "column \<Rightarrow> column" where
  "col_bfill (Numeric xs) = Numeric (bfill (\<lambda>x. x = None) xs)"
| "col_bfill (Boolean bs) = Boolean bs"
| "col_bfill (Datetime ts) = Datetime (bfill (\<lambda>x. x = None) ts)"
| "col_bfill (Object cs) = Object (bfill is_na cs)"

fun col_interpolate :: "column \<Rightarrow> column" where
  "col_interpolate (Numeric xs) = Numeric (interpolate xs)"
| "col_interpolate c = c"

definition map_columns :: "(column \<Rightarrow> column) \<Rightarrow> dataframe \<Rightarrow> dataframe" where
  "map_columns f df = df\<lparr>data := map (\<lambda>(l, c). (l, f c)) (data df)\<rparr>"

definition handle_missing_values :: "dataframe \<Rightarrow> string \<Rightarrow> dataframe" where
  "handle_missing_values df method =
     (if method = ''linear_interpolation'' then map_columns col_interpolate df
      else if method = ''forward_fill'' then map_columns col_ffill df
      else if method = ''backward_fill'' then map_columns col_bfill df
      else if method = ''remove'' then keep_rows (\<lambda>i. \<not> row_any is_na df i) df
      else df)"

text \<open>
  \<open>_remove_duplicates\<close>: a row goes when an earlier row has the same cells (NaN counts as
  equal to NaN).
\<close>

definition row :: "dataframe \<Rightarrow> nat \<Rightarrow> cell list" where
  "row df i = map (\<lambda>(l, c). cell_at c i) (data df)"

definition remove_duplicates :: "dataframe \<Rightarrow> dataframe" where
  "remove_duplicates df = keep_rows (\<lambda>i. \<not> list_ex (\<lambda>j. row df j = row df i) [0..<i]) df"

text \<open>
  The rules by file type read a column as \<open>df[col]\<close> and ask for its \<open>.dtype\<close>. For a
  label that two columns share this is a DataFrame, which has no \<open>.dtype\<close>:
  \<open>AttributeError\<close>. The test \<open>dtype in ['float64', 'int64']\<close> holds for \<open>Numeric\<close>.
\<close>

definition get_series :: "dataframe \<Rightarrow> string \<Rightarrow> error + column" where
  "get_series df col =
     (case filter (\<lambda>(l, c). l = col) (data df) of
        [(l, c)] \<Rightarrow> Inr c
      | _ \<Rightarrow> Inl AttributeError)"

definition value_at :: "real option list \<Rightarrow> nat \<Rightarrow> real option" where
  "value_at xs i = (if i < length xs then xs ! i else None)"

text \<open>\<open>df[col] = f(df[col])\<close> on a \<open>Numeric\<close> column, entry by entry; NaN stays NaN.\<close>

definition update_numeric :: "string \<Rightarrow> (real \<Rightarrow> real) \<Rightarrow> dataframe \<Rightarrow> dataframe" where
  "update_numeric col f df =
     df\<lparr>data := map (\<lambda>(l, c). if l = col
                                 then (l, case c of Numeric xs \<Rightarrow> Numeric (map (map_option f) xs)
                                                  | _ \<Rightarrow> c)
                                 else (l, c)) (data df)\<rparr>"

text \<open>A loop over labels that stops at the first exception.\<close>

fun fold_err :: "('a \<Rightarrow> 's \<Rightarrow> error + 's) \<Rightarrow> 'a list \<Rightarrow> 's \<Rightarrow> error + 's" where
  "fold_err f [] s = Inr s"
| "fold_err f (x # xs) s = (case f x s of Inl e \<Rightarrow> Inl e | Inr s' \<Rightarrow> fold_err f xs s')"

text \<open>\<open>df = df[df[col] > 0]\<close> and its like: the rows whose value passes; NaN never passes.\<close>

definition filter_rows_by :: "string \<Rightarrow> (real \<Rightarrow> bool) \<Rightarrow> dataframe \<Rightarrow> error + dataframe" where
  "filter_rows_by col ok df =
     (case get_series df col of
        Inl e \<Rightarrow> Inl e
      | Inr (Numeric xs) \<Rightarrow>
          Inr (keep_rows (\<lambda>i. case value_at xs i of None \<Rightarrow> False | Some v \<Rightarrow> ok v) df)
      | Inr c \<Rightarrow> Inr df)"

text \<open>
  Rounding of a real to the nearest \<open>float64\<close>, ties to the even significand (the exponent
  range is taken as unbounded): \<open>binary_exponent x\<close> is the \<open>e\<close> with
  \<open>2 ^ e \<le> \<bar>x\<bar> < 2 ^ (e + 1)\<close>, and the significand has 53 bits. Then C's \<open>fmod\<close>, which
  is exact, and the \<open>%\<close> of Python and numpy on floats: \<open>fmod\<close>, moved by the divisor when
  its sign differs from the divisor's.
\<close>

definition binary_exponent :: "real \<Rightarrow> int" where
  "binary_exponent x =
     (if 1 \<le> \<bar>x\<bar> then bitlen \<lfloor>\<bar>x\<bar>\<rfloor> - 1 else - bitlen (\<lceil>1 / \<bar>x\<bar>\<rceil> - 1))"

definition float64_round :: "real \<Rightarrow> real" where
  "float64_round x =
     (if x = 0 then 0
      else (let u = 2 powi (binary_exponent x - 52)
            in of_int (round_half_even (x / u)) * u))"

definition fmod :: "real \<Rightarrow> real \<Rightarrow> real" where
  "fmod a b = a - b * of_int (if 0 \<le> a / b then \<lfloor>a / b\<rfloor> else \<lceil>a / b\<rceil>)"

definition float_mod :: "real \<Rightarrow> real \<Rightarrow> real" where
  "float_mod a b =
     (let r = fmod a b in
      if r \<noteq> 0 \<and> ((b < 0) \<noteq> (r < 0)) then float64_round (r + b) else r)"

text \<open>\<open>((x + 180) % 360) - 180\<close> in \<open>float64\<close> arithmetic.\<close>

definition wrap_phase :: "real \<Rightarrow> real" where
  "wrap_phase x = float64_round (float_mod (float64_round (x + 180)) 360 - 180)"

definition labels_with :: "string list \<Rightarrow> dataframe \<Rightarrow> string list" where
  "labels_with words df =
     filter (\<lambda>col. list_ex (\<lambda>w. str_in w (lower col)) words) (columns df)"

text \<open>
  The step for one harmonic-order column: the rows with a positive order, then the order
  rounded to an integer.
\<close>

definition harmonic_step :: "string \<Rightarrow> dataframe \<Rightarrow> error + dataframe" where
  "harmonic_step col df =
     (case filter_rows_by col (\<lambda>v. 0 < v) df of
        Inl e \<Rightarrow> Inl e
      | Inr df' \<Rightarrow> Inr (update_numeric col (\<lambda>v. of_int (round_half_even v)) df'))"

definition phase_step :: "string \<Rightarrow> dataframe \<Rightarrow> error + dataframe" where
  "phase_step col df =
     (case get_series df col of
        Inl e \<Rightarrow> Inl e
      | Inr c \<Rightarrow> Inr (update_numeric col wrap_phase df))"

definition clean_armonicos_potencia_data :: "dataframe \<Rightarrow> error + dataframe" where
  "clean_armonicos_potencia_data df =
     (case fold_err harmonic_step (labels_with [''harmonic''] df) df of
        Inl e \<Rightarrow> Inl e
      | Inr df1 \<Rightarrow> fold_err phase_step (labels_with [''phase'', ''angle''] df1) df1)"

definition clean_armonicos_voltaje_data :: "dataframe \<Rightarrow> error + dataframe" where
  "clean_armonicos_voltaje_data df =
     (case fold_err harmonic_step (labels_with [''harmonic''] df) df of
        Inl e \<Rightarrow> Inl e
      | Inr df1 \<Rightarrow>
          (case fold_err (\<lambda>col. filter_rows_by col (\<lambda>v. 0 \<le> v))
                  (labels_with [''amplitude'', ''magnitude''] df1) df1 of
             Inl e \<Rightarrow> Inl e
           | Inr df2 \<Rightarrow> fold_err phase_step (labels_with [''phase'', ''angle''] df2) df2))"

text \<open>
  \<open>_clean_tendencia_data\<close>. The first time or date column is parsed and the rows sorted
  by it, NaT last, rows of equal time in their old order; any exception there (a label
  shared by two columns, a \<open>bool\<close> column) is swallowed and leaves the table as it was.
\<close>

definition sort_order :: "nat \<Rightarrow> int option list \<Rightarrow> nat list" where
  "sort_order n ts =
     sort_key (\<lambda>i. the (ts ! i)) (filter (\<lambda>i. ts ! i \<noteq> None) [0..<n]) @
     filter (\<lambda>i. ts ! i = None) [0..<n]"

definition parse_and_sort :: "pandas \<Rightarrow> string \<Rightarrow> dataframe \<Rightarrow> dataframe" where
  "parse_and_sort pd col df =
     (case get_series df col of
        Inl e \<Rightarrow> df
      | Inr (Boolean bs) \<Rightarrow> df
      | Inr c \<Rightarrow>
          (let ts = map (\<lambda>x. if is_na x then None else to_datetime pd x) (cells_of c);
               df' = df\<lparr>data := map (\<lambda>(l, c'). if l = col then (l, Datetime ts) else (l, c'))
                                     (data df)\<rparr>
           in take_rows (sort_order (n_rows df) ts) df'))"

definition clean_tendencia_data :: "pandas \<Rightarrow> dataframe \<Rightarrow> error + dataframe" where
  "clean_tendencia_data pd df =
     (let df1 = (case labels_with [''time'', ''date''] df of
                   [] \<Rightarrow> df
                 | col # cols \<Rightarrow> parse_and_sort pd col df)
      in fold_err (\<lambda>col. filter_rows_by col (\<lambda>v. 0 \<le> v))
           (labels_with [''voltage'', ''volt''] df1) df1)"

definition apply_file_specific_cleaning ::
    "pandas \<Rightarrow> dataframe \<Rightarrow> string \<Rightarrow> error + dataframe" where
  "apply_file_specific_cleaning pd df file_type =
     (if file_type = ''tendencia'' then clean_tendencia_data pd df
      else if file_type = ''armonicos_potencia'' then clean_armonicos_potencia_data df
      else if file_type = ''armonicos_voltaje'' then clean_armonicos_voltaje_data df
      else Inr df)"

text \<open>\<open>clean_data\<close>; \<open>None\<close> is Python's \<open>None\<close>, and \<open>pd.DataFrame()\<close> has no row and no column.\<close>

definition df_empty :: "dataframe \<Rightarrow> bool" where
  "df_empty df = (n_rows df = 0 \<or> data df = [])"

definition empty_frame :: dataframe where
  "empty_frame = \<lparr>n_rows = 0, data = []\<rparr>"

definition clean_data ::
    "pandas \<Rightarrow> dataframe option \<Rightarrow> string \<Rightarrow> string \<Rightarrow> error + dataframe" where
  "clean_data pd df file_type interpolation_method =
     (case df of
        None \<Rightarrow> Inr empty_frame
      | Some df0 \<Rightarrow>
          if df_empty df0 then Inr empty_frame
          else
            (let cleaned1 = clean_column_names df0;
                 cleaned2 = remove_empty_rows_columns cleaned1
             in case clean_numeric_columns pd cleaned2 file_type of
                  Inl e \<Rightarrow> Inl e
                | Inr cleaned3 \<Rightarrow>
                    (let cleaned4 = handle_missing_values cleaned3 interpolation_method;
                         cleaned5 = remove_duplicates cleaned4
                     in apply_file_specific_cleaning pd cleaned5 file_type)))"

section \<open>Predicates of the claims\<close>


section \<open>Properties of the extraction helpers\<close>

lemma str_in_iff: "str_in sub s \<longleftrightarrow> (\<exists>ps ss. s = ps @ sub @ ss)"
proof (induction s)
  case Nil
  then show ?case by auto
next
  case (Cons c cs)
  show ?case
  proof
    assume "str_in sub (c # cs)"
    then consider "prefix sub (c # cs)" | "str_in sub cs" by auto
    then show "\<exists>ps ss. c # cs = ps @ sub @ ss"
    proof cases
      case 1
      then obtain ss where "c # cs = sub @ ss" by (auto simp: prefix_def)
      then have "c # cs = [] @ sub @ ss" by simp
      then show ?thesis by blast
    next
      case 2
      with Cons.IH obtain ps ss where "cs = ps @ sub @ ss" by blast
      then have "c # cs = (c # ps) @ sub @ ss" by simp
      then show ?thesis by blast
    qed
  next
    assume "\<exists>ps ss. c # cs = ps @ sub @ ss"
    then obtain ps ss where eq: "c # cs = ps @ sub @ ss" by blast
    show "str_in sub (c # cs)"
    proof (cases ps)
      case Nil
      with eq have "prefix sub (c # cs)" by (simp add: prefix_def)
      then show ?thesis by simp
    next
      case (Cons p ps')
      with eq have "cs = ps' @ sub @ ss" by simp
      with Cons.IH have "str_in sub cs" by blast
      then show ?thesis by simp
    qed
  qed
qed

lemma takeWhile_ne_iff: "takeWhile P xs \<noteq> [] \<longleftrightarrow> (\<exists>y ys. xs = y # ys \<and> P y)"
  by (cases xs) auto

lemma match_P_H_None_iff:
  "match_P_H s = None \<longleftrightarrow> \<not> (\<exists>d rest. s = ''P H '' @ d # rest \<and> is_digit d)"
proof -
  have "prefix ''P H '' s \<and> takeWhile is_digit (drop 4 s) \<noteq> []
        \<longleftrightarrow> (\<exists>d rest. s = ''P H '' @ d # rest \<and> is_digit d)"
  proof
    assume a: "prefix ''P H '' s \<and> takeWhile is_digit (drop 4 s) \<noteq> []"
    then obtain t where t: "s = ''P H '' @ t" by (auto simp: prefix_def)
    with a have "takeWhile is_digit t \<noteq> []" by simp
    then obtain d rest where "t = d # rest" "is_digit d" by (auto simp: takeWhile_ne_iff)
    with t have "s = ''P H '' @ d # rest \<and> is_digit d" by simp
    then show "\<exists>d rest. s = ''P H '' @ d # rest \<and> is_digit d" by (intro exI)
  next
    assume "\<exists>d rest. s = ''P H '' @ d # rest \<and> is_digit d"
    then obtain d rest where "s = ''P H '' @ d # rest" "is_digit d" by (elim exE conjE)
    then show "prefix ''P H '' s \<and> takeWhile is_digit (drop 4 s) \<noteq> []" by simp
  qed
  then show ?thesis by (simp add: match_P_H_def)
qed

lemma match_P_H_SomeD:
  "match_P_H s \<noteq> None \<Longrightarrow> \<exists>d rest. s = ''P H '' @ d # rest \<and> is_digit d"
  by (simp add: match_P_H_None_iff)

lemma match_P_H_NoneD:
  "match_P_H s = None \<Longrightarrow> \<not> (\<exists>d rest. s = ''P H '' @ d # rest \<and> is_digit d)"
  by (simp add: match_P_H_None_iff)

lemma occurs_P_H_I: "s = pre @ ''P H '' @ d # rest \<Longrightarrow> is_digit d \<Longrightarrow> occurs_P_H s"
  unfolding occurs_P_H_def by (intro exI conjI)

lemma occurs_P_H_Cons:
  "occurs_P_H (c # cs) \<longleftrightarrow> (\<exists>d rest. c # cs = ''P H '' @ d # rest \<and> is_digit d) \<or> occurs_P_H cs"
proof
  assume "occurs_P_H (c # cs)"
  then obtain pre d rest where eq: "c # cs = pre @ ''P H '' @ d # rest" and d: "is_digit d"
    by (auto simp: occurs_P_H_def)
  show "(\<exists>d rest. c # cs = ''P H '' @ d # rest \<and> is_digit d) \<or> occurs_P_H cs"
  proof (cases pre)
    case Nil
    with eq d show ?thesis by auto
  next
    case (Cons p pre')
    with eq have "cs = pre' @ ''P H '' @ d # rest" by simp
    then have "occurs_P_H cs" using d by (rule occurs_P_H_I)
    then show ?thesis ..
  qed
next
  assume "(\<exists>d rest. c # cs = ''P H '' @ d # rest \<and> is_digit d) \<or> occurs_P_H cs"
  then show "occurs_P_H (c # cs)"
  proof
    assume "\<exists>d rest. c # cs = ''P H '' @ d # rest \<and> is_digit d"
    then obtain d rest where "c # cs = [] @ ''P H '' @ d # rest" "is_digit d" by auto
    then show ?thesis by (rule occurs_P_H_I)
  next
    assume "occurs_P_H cs"
    then obtain pre d rest where "cs = pre @ ''P H '' @ d # rest" "is_digit d"
      by (auto simp: occurs_P_H_def)
    then have "c # cs = (c # pre) @ ''P H '' @ d # rest" "is_digit d" by simp_all
    then show ?thesis by (rule occurs_P_H_I)
  qed
qed

lemma occurs_P_H_Nil: "\<not> occurs_P_H []"
  by (simp add: occurs_P_H_def)

lemma search_P_H_None_iff: "search_P_H s = None \<longleftrightarrow> \<not> occurs_P_H s"
proof (induction s)
  case Nil
  show ?case by (simp add: occurs_P_H_Nil)
next
  case (Cons c cs)
  show ?case
  proof (cases "match_P_H (c # cs)")
    case None
    then have "\<not> (\<exists>d rest. c # cs = ''P H '' @ d # rest \<and> is_digit d)"
      by (rule match_P_H_NoneD)
    with None Cons.IH show ?thesis by (simp add: occurs_P_H_Cons)
  next
    case (Some a)
    then have "match_P_H (c # cs) \<noteq> None" by simp
    then have "\<exists>d rest. c # cs = ''P H '' @ d # rest \<and> is_digit d"
      by (rule match_P_H_SomeD)
    with Some show ?thesis by (auto simp: occurs_P_H_Cons split: prod.splits)
  qed
qed

lemma take_app_le: "n \<le> length xs \<Longrightarrow> take n (xs @ ys) = take n xs"
  by simp

lemma takeWhile_digits:
  assumes "\<forall>c\<in>set ds. is_digit c" and "rest = [] \<or> \<not> is_digit (hd rest)"
  shows "takeWhile is_digit (ds @ rest) = ds"
proof -
  have "takeWhile is_digit rest = []" using assms(2) by (cases rest) auto
  with assms(1) show ?thesis by (simp add: takeWhile_append2)
qed

lemma search_P_H_leftmost:
  assumes "ds \<noteq> []" and "\<forall>c\<in>set ds. is_digit c" and "rest = [] \<or> \<not> is_digit (hd rest)"
    and "\<not> occurs_P_H (pre @ ''P H '')"
  shows "search_P_H (pre @ ''P H '' @ ds @ rest) = Some ds"
  using assms(4)
proof (induction pre)
  case Nil
  have "takeWhile is_digit (ds @ rest) = ds" using assms(2,3) by (rule takeWhile_digits)
  with assms(1) have "match_P_H (''P H '' @ ds @ rest) = Some (ds, dropWhile is_digit (ds @ rest))"
    by (simp add: match_P_H_def)
  then show ?case by simp
next
  case (Cons p pre')
  let ?s = "pre' @ ''P H '' @ ds @ rest"
  from Cons.prems have no0: "\<not> (\<exists>d r. p # pre' @ ''P H '' = ''P H '' @ d # r \<and> is_digit d)"
    and no1: "\<not> occurs_P_H (pre' @ ''P H '')"
    by (simp_all add: occurs_P_H_Cons)
  have "match_P_H (p # ?s) = None"
  proof (rule ccontr)
    assume "match_P_H (p # ?s) \<noteq> None"
    then have "\<exists>d r. p # ?s = ''P H '' @ d # r \<and> is_digit d"
      by (rule match_P_H_SomeD)
    then obtain d r where eq: "p # ?s = ''P H '' @ d # r" and d: "is_digit d"
      by (elim exE conjE)
    define u where "u = p # pre' @ ''P H ''"
    have len: "5 \<le> length u" by (simp add: u_def)
    have "take 5 (u @ (ds @ rest)) = take 5 u"
      using len by (rule take_app_le)
    moreover have "u @ (ds @ rest) = ''P H '' @ d # r" using eq by (simp add: u_def)
    ultimately have t5: "take 5 u = ''P H '' @ [d]" by simp
    have "u = take 5 u @ drop 5 u" by simp
    then have "u = (''P H '' @ [d]) @ drop 5 u" by (simp only: t5)
    then have "p # pre' @ ''P H '' = ''P H '' @ d # drop 5 u" by (simp add: u_def)
    with d have "\<exists>d r. p # pre' @ ''P H '' = ''P H '' @ d # r \<and> is_digit d"
      by (intro exI conjI)
    with no0 show False by (rule notE)
  qed
  moreover have "search_P_H ?s = Some ds" using no1 by (rule Cons.IH)
  ultimately show ?case by simp
qed

lemma extract_harmonic_order_nonneg: "0 \<le> extract_harmonic_order s"
  by (simp add: extract_harmonic_order_def split: option.splits)


text \<open>
  Claim C6. Phase extraction looks for \<open>l1\<close>, then \<open>l2\<close>, then \<open>l3\<close> as substrings of the
  lower-cased label; the first one found decides the phase, and a label with none of them
  is \<open>GENERAL\<close>.
\<close>

theorem extract_phase_priority:
  "extract_phase_from_column c =
     (if (\<exists>ps ss. lower c = ps @ ''l1'' @ ss) then ''L1''
      else if (\<exists>ps ss. lower c = ps @ ''l2'' @ ss) then ''L2''
      else if (\<exists>ps ss. lower c = ps @ ''l3'' @ ss) then ''L3''
      else ''GENERAL'')"
  by (simp only: extract_phase_from_column_def Let_def str_in_iff)

theorem extract_phase_priority_witness:
  "extract_phase_from_column ''Pst L2 instant. 10 min'' = ''L2'' \<and>
   extract_phase_from_column ''U L3 vs L1'' = ''L1'' \<and>
   extract_phase_from_column ''Frequency avg.'' = ''GENERAL''"
  using extract_phase_priority [of "''Pst L2 instant. 10 min''", folded str_in_iff]
    extract_phase_priority [of "''U L3 vs L1''", folded str_in_iff]
    extract_phase_priority [of "''Frequency avg.''", folded str_in_iff]
  by (simp add: lower_def lower_char_def)

text \<open>
  Claim C7, as amended. Harmonic-order extraction returns the number written by the digits
  of the leftmost occurrence of \<open>P H\<close>, a space and digits; without an occurrence it
  returns 1; and the order is never negative. It can be 0.
\<close>

theorem extract_harmonic_order_spec:
  "(\<not> occurs_P_H s \<longrightarrow> extract_harmonic_order s = 1) \<and>
   (ds \<noteq> [] \<and> (\<forall>c\<in>set ds. is_digit c) \<and> (rest = [] \<or> \<not> is_digit (hd rest)) \<and>
      \<not> occurs_P_H (pre @ ''P H '')
      \<longrightarrow> extract_harmonic_order (pre @ ''P H '' @ ds @ rest) = int (int_of_digits ds)) \<and>
   0 \<le> extract_harmonic_order s"
proof (intro conjI impI)
  assume "\<not> occurs_P_H s"
  then have "search_P_H s = None" by (simp add: search_P_H_None_iff)
  then show "extract_harmonic_order s = 1" by (simp add: extract_harmonic_order_def)
next
  assume a: "ds \<noteq> [] \<and> (\<forall>c\<in>set ds. is_digit c) \<and> (rest = [] \<or> \<not> is_digit (hd rest)) \<and>
      \<not> occurs_P_H (pre @ ''P H '')"
  then have "search_P_H (pre @ ''P H '' @ ds @ rest) = Some ds"
    by (intro search_P_H_leftmost) auto
  then show "extract_harmonic_order (pre @ ''P H '' @ ds @ rest) = int (int_of_digits ds)"
    by (simp add: extract_harmonic_order_def)
next
  show "0 \<le> extract_harmonic_order s" by (rule extract_harmonic_order_nonneg)
qed

lemma occurs_P_H_code: "occurs_P_H s \<longleftrightarrow> search_P_H s \<noteq> None"
  by (simp add: search_P_H_None_iff)

theorem extract_harmonic_order_spec_witness:
  "extract_harmonic_order ''THD U L1 avg.'' = 1 \<and>
   extract_harmonic_order ''x P H 13 L2'' = 13 \<and>
   int_of_digits ''13'' = 13 \<and>
   \<not> occurs_P_H ''THD U L1 avg.'' \<and> \<not> occurs_P_H ''x P H ''"
  using extract_harmonic_order_spec
    [where s = "''THD U L1 avg.''" and pre = "''x ''" and ds = "''13''" and rest = "'' L2''"]
  by (simp add: occurs_P_H_code match_P_H_def is_digit_def int_of_digits_def digit_val_def)

text \<open>
  The column \<open>P H 0 L1\<close> is a harmonic channel, its order is 0, and the analysis emits a
  record for it.
\<close>

theorem harmonic_order_zero:
  "search_P_H_L ''P H 0 L1'' \<and> extract_harmonic_order ''P H 0 L1'' = 0 \<and>
   map orden_armonico
     (analyze_armonicos_complete \<lparr>n_rows = 1, data = [(''P H 0 L1'', Numeric [Some 5])]\<rparr>) = [0]"
  by (simp add: analyze_armonicos_complete_def harmonic_columns_def columns_def harmonic_entry_def
      numeric_values_def df_get_def List.map_filter_def extract_harmonic_order_def
      match_P_H_L_def match_P_H_def is_digit_def int_of_digits_def digit_val_def)

section \<open>Properties of the harmonic analysis\<close>

lemma set_map_filter_iff: "y \<in> set (List.map_filter f xs) \<longleftrightarrow> (\<exists>x\<in>set xs. f x = Some y)"
  by (induction xs) (auto simp: List.map_filter_def)

lemma harmonic_entry_SomeD:
  assumes "harmonic_entry df col = Some r"
  shows "harmonic_record.parametro r = col"
    and "orden_armonico r = extract_harmonic_order col"
    and "harmonic_record.total_mediciones r = 2150"
    and "numeric_values df col \<noteq> []"
    and "valores_negativos r = length (filter (\<lambda>x. x < 0) (numeric_values df col))"
    and "porcentaje r = py_round (real (valores_negativos r) / 2150 * 100) 8"
  using assms
  by (auto simp: harmonic_entry_def Let_def harmonic_total_measurements_def split: list.splits)

lemma analyze_armonicos_complete_D:
  assumes "r \<in> set (analyze_armonicos_complete df)"
  shows "\<exists>col \<in> set (columns df).
           search_P_H_L col \<and> extract_harmonic_order col \<noteq> 1 \<and> harmonic_entry df col = Some r"
  using assms
  by (auto simp: analyze_armonicos_complete_def set_map_filter_iff harmonic_columns_def)

text \<open>
  Claim C3. No record of the harmonic analysis has order 1, and no record comes from a
  column whose extracted order is 1, whatever the table holds.
\<close>

theorem no_fundamental_record:
  "\<forall>r \<in> set (analyze_armonicos_complete df).
      orden_armonico r \<noteq> 1 \<and> extract_harmonic_order (harmonic_record.parametro r) \<noteq> 1"
proof
  fix r
  assume "r \<in> set (analyze_armonicos_complete df)"
  then obtain col where "extract_harmonic_order col \<noteq> 1" and "harmonic_entry df col = Some r"
    using analyze_armonicos_complete_D by blast
  then show "orden_armonico r \<noteq> 1 \<and> extract_harmonic_order (harmonic_record.parametro r) \<noteq> 1"
    by (simp add: harmonic_entry_SomeD(1,2))
qed

theorem no_fundamental_record_witness:
  "map orden_armonico
     (analyze_armonicos_complete
        \<lparr>n_rows = 2,
         data = [(''P H 1 L1'', Numeric [Some (- 1), Some (- 2)]),
                 (''P H 3 L1'', Numeric [Some 1, Some 2]),
                 (''P H 5 L1'', Numeric [Some (- 1), None])]\<rparr>) = [3, 5]"
  using no_fundamental_record
    [of "\<lparr>n_rows = 2,
         data = [(''P H 1 L1'', Numeric [Some (- 1), Some (- 2)]),
                 (''P H 3 L1'', Numeric [Some 1, Some 2]),
                 (''P H 5 L1'', Numeric [Some (- 1), None])]\<rparr>"]
  by (simp add: analyze_armonicos_complete_def harmonic_columns_def columns_def
      harmonic_entry_def numeric_values_def df_get_def List.map_filter_def
      extract_harmonic_order_def match_P_H_L_def match_P_H_def is_digit_def
      int_of_digits_def digit_val_def)

section \<open>Properties of the rule families\<close>





lemma voltage_entry_Nil: "numeric_values df col = [] \<Longrightarrow> voltage_entry df tm col = Inr None"
  by (simp add: voltage_entry_def)





















section \<open>Properties of the emptiness pruning\<close>

lemma col_len_cells_of: "length (cells_of c) = col_len c"
  by (cases c) simp_all

lemma wf_df_col_len: "wf_df d \<Longrightarrow> (l, c) \<in> set (data d) \<Longrightarrow> col_len c = n_rows d"
  by (auto simp: wf_df_def list_all_iff)

lemma cells_of_col_take:
  "\<forall>i\<in>set order. i < col_len c \<Longrightarrow> cells_of (col_take order c) = map ((!) (cells_of c)) order"
  by (cases c) (simp_all add: nth_map)

lemma col_take_col_take:
  "\<forall>j\<in>set o2. j < length o1 \<Longrightarrow> col_take o2 (col_take o1 c) = col_take (map ((!) o1) o2) c"
  by (cases c) (simp_all add: nth_map)

lemma take_rows_take_rows:
  "\<forall>j\<in>set o2. j < length o1 \<Longrightarrow> take_rows o2 (take_rows o1 d) = take_rows (map ((!) o1) o2) d"
  by (simp add: take_rows_def col_take_col_take split_def)

lemma cell_at_col_take:
  assumes "\<forall>i\<in>set order. i < col_len c" and "j < length order"
  shows "cell_at (col_take order c) j = cell_at c (order ! j)"
proof -
  have "order ! j \<in> set order" using assms(2) by simp
  with assms(1) have "order ! j < col_len c" by blast
  then show ?thesis
    using assms(2) by (simp add: cell_at_def cells_of_col_take [OF assms(1)] col_len_cells_of)
qed

lemma row_all_take_rows:
  assumes "wf_df d" and "\<forall>i\<in>set order. i < n_rows d" and "j < length order"
  shows "row_all P (take_rows order d) j = row_all P d (order ! j)"
proof -
  have "\<And>l c. (l, c) \<in> set (data d) \<Longrightarrow> cell_at (col_take order c) j = cell_at c (order ! j)"
  proof -
    fix l c assume "(l, c) \<in> set (data d)"
    with assms(1) have "col_len c = n_rows d" by (rule wf_df_col_len)
    with assms(2) have "\<forall>i\<in>set order. i < col_len c" by simp
    then show "cell_at (col_take order c) j = cell_at c (order ! j)"
      using assms(3) by (rule cell_at_col_take)
  qed
  then show ?thesis
    by (auto simp: row_all_def take_rows_def list_all_iff)
qed

lemma map_nth_filter_index:
  "map ((!) xs) (filter (\<lambda>j. q (xs ! j)) [0..<length xs]) = filter q xs"
proof (induction xs rule: rev_induct)
  case Nil
  show ?case by simp
next
  case (snoc x xs)
  have a: "filter (\<lambda>j. q ((xs @ [x]) ! j)) [0..<length xs] = filter (\<lambda>j. q (xs ! j)) [0..<length xs]"
    by (rule filter_cong) (simp_all add: nth_append)
  have b: "map ((!) (xs @ [x])) (filter (\<lambda>j. q (xs ! j)) [0..<length xs])
           = map ((!) xs) (filter (\<lambda>j. q (xs ! j)) [0..<length xs])"
    by (rule map_cong) (auto simp: nth_append)
  show ?case using snoc.IH by (simp add: a b)
qed

lemma drop_rows_twice:
  assumes "wf_df d"
  shows "drop_rows_where P2 (drop_rows_where P1 d)
         = keep_rows (\<lambda>i. \<not> row_all P1 d i \<and> \<not> row_all P2 d i) d"
proof -
  let ?k1 = "\<lambda>i. \<not> row_all P1 d i"
  let ?kept = "filter ?k1 [0..<n_rows d]"
  let ?d1 = "take_rows ?kept d"
  have in_range: "\<forall>i\<in>set ?kept. i < n_rows d" by simp
  have n1: "n_rows ?d1 = length ?kept" by (simp add: take_rows_def)
  have "filter (\<lambda>j. \<not> row_all P2 ?d1 j) [0..<length ?kept]
        = filter (\<lambda>j. \<not> row_all P2 d (?kept ! j)) [0..<length ?kept]"
  proof (rule filter_cong)
    show "[0..<length ?kept] = [0..<length ?kept]" ..
  next
    fix j assume "j \<in> set [0..<length ?kept]"
    then have "j < length ?kept" by simp
    with assms in_range have "row_all P2 ?d1 j = row_all P2 d (?kept ! j)"
      by (rule row_all_take_rows)
    then show "(\<not> row_all P2 ?d1 j) = (\<not> row_all P2 d (?kept ! j))" by simp
  qed
  then have "map ((!) ?kept) (filter (\<lambda>j. \<not> row_all P2 ?d1 j) [0..<length ?kept])
        = filter (\<lambda>i. \<not> row_all P2 d i) ?kept"
    by (simp only: map_nth_filter_index [of ?kept "\<lambda>i. \<not> row_all P2 d i"])
  also have "\<dots> = filter (\<lambda>i. \<not> row_all P1 d i \<and> \<not> row_all P2 d i) [0..<n_rows d]"
    by simp
  finally have idx: "map ((!) ?kept) (filter (\<lambda>j. \<not> row_all P2 ?d1 j) [0..<length ?kept])
        = filter (\<lambda>i. \<not> row_all P1 d i \<and> \<not> row_all P2 d i) [0..<n_rows d]" .
  have "drop_rows_where P2 (drop_rows_where P1 d)
        = take_rows (filter (\<lambda>j. \<not> row_all P2 ?d1 j) [0..<length ?kept]) ?d1"
    by (simp only: drop_rows_where_def keep_rows_def n1)
  also have "\<dots> = take_rows (map ((!) ?kept) (filter (\<lambda>j. \<not> row_all P2 ?d1 j) [0..<length ?kept])) d"
    by (rule take_rows_take_rows) simp
  also have "\<dots> = take_rows (filter (\<lambda>i. \<not> row_all P1 d i \<and> \<not> row_all P2 d i) [0..<n_rows d]) d"
    by (simp only: idx)
  finally show ?thesis by (simp only: keep_rows_def)
qed

lemma wf_df_drop_columns: "wf_df d \<Longrightarrow> wf_df (drop_columns_where P d)"
  by (auto simp: wf_df_def drop_columns_where_def list_all_iff)

lemma drop_columns_twice:
  "data (drop_columns_where P2 (drop_columns_where P1 d))
   = filter (\<lambda>(l, c). \<not> list_all P1 (cells_of c) \<and> \<not> list_all P2 (cells_of c)) (data d)"
  by (auto simp: drop_columns_where_def intro: filter_cong)

text \<open>
  Claim C9, as amended. The emptiness pruning drops the columns that are entirely missing
  or entirely blank first, and judges the rows on the columns that remain: a row is dropped
  exactly when all its remaining cells are missing or all of them are blank.
\<close>

theorem pruning_after_columns:
  assumes "wf_df df"
  shows "data (drop_columns_where is_blank (drop_columns_where is_na df))
           = filter (\<lambda>(l, c). \<not> list_all is_na (cells_of c) \<and> \<not> list_all is_blank (cells_of c))
               (data df) \<and>
         remove_empty_rows_columns df
           = keep_rows
               (\<lambda>i. \<not> row_all is_na (drop_columns_where is_blank (drop_columns_where is_na df)) i \<and>
                    \<not> row_all is_blank (drop_columns_where is_blank (drop_columns_where is_na df)) i)
               (drop_columns_where is_blank (drop_columns_where is_na df))"
proof -
  have "wf_df (drop_columns_where is_blank (drop_columns_where is_na df))"
    using assms by (intro wf_df_drop_columns)
  then show ?thesis
    by (simp only: remove_empty_rows_columns_def drop_rows_twice drop_columns_twice simp_thms)
qed

lemmas frame_ev = keep_rows_def take_rows_def row_all_def row_any_def cell_at_def is_na_def
  is_blank_def drop_columns_where_def drop_rows_where_def remove_empty_rows_columns_def
  strip_def is_space_def

theorem pruning_after_columns_witness:
  "wf_df \<lparr>n_rows = 2, data = [(''a'', Object [Num 1, NaN]), (''b'', Object [Str '' '', Str '' ''])]\<rparr> \<and>
   remove_empty_rows_columns
     \<lparr>n_rows = 2, data = [(''a'', Object [Num 1, NaN]), (''b'', Object [Str '' '', Str '' ''])]\<rparr>
   = \<lparr>n_rows = 1, data = [(''a'', Object [Num 1])]\<rparr>"
  (is "wf_df ?D \<and> ?R")
proof -
  have wf: "wf_df ?D" by (simp add: wf_df_def)
  have r: ?R by (simp add: frame_ev upt_rec)
  from pruning_after_columns [OF wf] wf r show ?thesis by blast
qed

text \<open>
  Row 1 of the first table is neither entirely missing nor entirely blank on the table as
  given, its only non-missing cell lies in column \<open>b\<close>, which is dropped, and the row is
  dropped too. Row 1 of the second table consists of a missing and a blank cell and is
  kept.
\<close>

theorem pruning_not_on_original:
  "remove_empty_rows_columns
     \<lparr>n_rows = 2, data = [(''a'', Object [Num 1, NaN]), (''b'', Object [Str '' '', Str '' ''])]\<rparr>
   = \<lparr>n_rows = 1, data = [(''a'', Object [Num 1])]\<rparr> \<and>
   \<not> row_all is_na
     \<lparr>n_rows = 2, data = [(''a'', Object [Num 1, NaN]), (''b'', Object [Str '' '', Str '' ''])]\<rparr> 1 \<and>
   \<not> row_all is_blank
     \<lparr>n_rows = 2, data = [(''a'', Object [Num 1, NaN]), (''b'', Object [Str '' '', Str '' ''])]\<rparr> 1 \<and>
   remove_empty_rows_columns
     \<lparr>n_rows = 2, data = [(''a'', Object [Num 1, NaN]), (''b'', Object [Str ''y'', Str '' ''])]\<rparr>
   = \<lparr>n_rows = 2, data = [(''a'', Object [Num 1, NaN]), (''b'', Object [Str ''y'', Str '' ''])]\<rparr> \<and>
   row_all (\<lambda>x. is_na x \<or> is_blank x)
     \<lparr>n_rows = 2, data = [(''a'', Object [Num 1, NaN]), (''b'', Object [Str ''y'', Str '' ''])]\<rparr> 1"
  by (simp add: frame_ev upt_rec)

section \<open>Properties of \<open>clean_data\<close>\<close>

lemmas label_ev = clean_label_def strip_def is_space_def is_word_def lower_def lower_char_def

lemma clean_data_None: "clean_data pd None file_type method = Inr empty_frame"
  by (simp add: clean_data_def)

lemma clean_data_empty: "df_empty df \<Longrightarrow> clean_data pd (Some df) file_type method = Inr empty_frame"
  by (simp add: clean_data_def)

lemma convert_cell_unparseable:
  "to_numeric pd (filter numeric_char s) = None \<Longrightarrow> convert_cell pd (Str s) = None"
  by (simp add: convert_cell_def Let_def)

lemma is_numeric_column_value: "is_numeric_column ''value'' file_type"
  by (simp add: is_numeric_column_def numeric_indicators_def lower_def lower_char_def)

text \<open>
  Claim C5, at a table whose labels \<open>Value\<close> and \<open>VALUE\<close> both normalise to \<open>value\<close>:
  \<open>clean_data\<close> raises, whatever the file type and the gap-fill strategy.
\<close>

theorem clean_data_raises:
  "\<forall>pd file_type method.
     clean_data pd
       (Some \<lparr>n_rows = 2,
              data = [(''Value'', Numeric [Some 1, Some 2]), (''VALUE'', Numeric [Some 3, Some 4])]\<rparr>)
       file_type method = Inl AttributeError"
proof -
  have c1: "clean_column_names
      \<lparr>n_rows = 2,
       data = [(''Value'', Numeric [Some 1, Some 2]), (''VALUE'', Numeric [Some 3, Some 4])]\<rparr>
    = \<lparr>n_rows = 2,
       data = [(''value'', Numeric [Some 1, Some 2]), (''value'', Numeric [Some 3, Some 4])]\<rparr>"
    by (simp add: clean_column_names_def label_ev)
  have c2: "remove_empty_rows_columns
      \<lparr>n_rows = 2,
       data = [(''value'', Numeric [Some 1, Some 2]), (''value'', Numeric [Some 3, Some 4])]\<rparr>
    = \<lparr>n_rows = 2,
       data = [(''value'', Numeric [Some 1, Some 2]), (''value'', Numeric [Some 3, Some 4])]\<rparr>"
    by (simp add: frame_ev upt_rec)
  have c3: "\<And>pd file_type. clean_numeric_columns pd
      \<lparr>n_rows = 2,
       data = [(''value'', Numeric [Some 1, Some 2]), (''value'', Numeric [Some 3, Some 4])]\<rparr>
      file_type = Inl AttributeError"
    by (simp add: clean_numeric_columns_def columns_def is_numeric_column_value)
  show ?thesis by (simp add: clean_data_def df_empty_def c1 c2 c3)
qed

end
